theory Spec2Isabelle
  imports Main
begin

text \<open>
  A model of get-html-collection.ts of lit-analyzer: the builder of the user's collection
  of HTML tags, attributes and events (\<open>getUserConfigHtmlCollection\<close>), the builder of the
  built-in collection (\<open>getBuiltInHtmlCollection\<close>) and the back-fill of attribute types
  (\<open>addMissingAttrTypes\<close>). Line numbers are those of the source file.
\<close>

section \<open>Type descriptors\<close>

text \<open>
  The type descriptors of the library ts-simple-type, as far as get-html-collection.ts
  builds and inspects them: an object with a \<open>kind\<close> and, for a union, its member
  \<open>types\<close>. The kinds the file names are constructors of their own; every other kind of
  the library is \<open>OTHER\<close> with its name. A descriptor written without \<open>types\<close> has none.
\<close>

datatype SimpleTypeKind = ANY | STRING | BOOLEAN | NULL | UNION | OTHER string

datatype SimpleType = SimpleType (kind: SimpleTypeKind) (types: "SimpleType list")

section \<open>The memoized accessor\<close>

text \<open>
  Modelled from the spec: the helper \<open>lazy\<close> of ./util/util is not among the sources. The
  spec describes it as a deferred computation cell, a callable that computes its value on
  first evaluation and returns the cached value thereafter. A cell is either \<open>Deferred\<close>,
  holding the function it wraps, or \<open>Cached\<close>, holding the value of its first call.
  Calling the accessor is \<open>call\<close>: it yields the descriptor and the cell as the call
  leaves it.
\<close>

datatype 'a lazy = Deferred "unit \<Rightarrow> 'a" | Cached 'a

definition lazy :: "(unit \<Rightarrow> 'a) \<Rightarrow> 'a lazy" where
  "lazy func = Deferred func"

fun call :: "'a lazy \<Rightarrow> 'a \<times> 'a lazy" where
  "call (Deferred func) = (let value = func () in (value, Cached value))"
| "call (Cached v) = (v, Cached v)"


section \<open>The data model\<close>

text \<open>
  An entry of the baseline lists of vscode-html-languageservice (\<open>IAttributeData\<close>): the
  file reads its \<open>name\<close> and its \<open>description\<close>.
\<close>

record IAttributeData =
  name :: string
  description :: "string option"

text \<open>
  The document handed to the normalizer (\<open>HtmlData\<close>, version 1). The tag entries and the
  value sets are passed through to the normalizer untouched, so their types are parameters.
  A custom data source is such a document or a string; a string that names no existing
  file is handed to the normalizer as it is, so the normalizer's argument is either.
\<close>

record ('t, 'v) HtmlDataV1 =
  version :: nat
  tags :: "'t list"
  globalAttributes :: "IAttributeData list"
  valueSets :: 'v

datatype ('t, 'v) HtmlData = Document "('t, 'v) HtmlDataV1" | Str string

text \<open>
  Modelled from the spec: the declarations of ./parsing/parse-html-data/html-tag are not
  among the sources. The spec gives an attribute, a property and an event one shape:
  \<open>name\<close>, the discriminant \<open>kind\<close>, the memoized accessor \<open>getType\<close>, the provenance
  flag \<open>builtIn\<close>, an optional \<open>description\<close>, and \<open>fromTagName\<close> when scoped to a tag.
  A field the source leaves out of an object literal is \<open>None\<close>.
\<close>

datatype MemberKind = Attribute | Property | Event

record HtmlMember =
  kind :: "MemberKind option"
  name :: string
  description :: "string option"
  fromTagName :: "string option"
  builtIn :: "bool option"
  getType :: "SimpleType lazy"

type_synonym HtmlAttr = HtmlMember
type_synonym HtmlProp = HtmlMember
type_synonym HtmlEvent = HtmlMember
type_synonym HtmlSlot = string

record HtmlTag =
  tagName :: string
  description :: "string option"
  builtIn :: "bool option"
  attributes :: "HtmlAttr list"
  properties :: "HtmlProp list"
  events :: "HtmlEvent list"
  slots :: "HtmlSlot list"

record HtmlDataCollection =
  tags :: "HtmlTag list"
  attrs :: "HtmlAttr list"
  events :: "HtmlEvent list"

text \<open>The descriptor an accessor yields when it is called.\<close>

definition typeOf :: "HtmlMember \<Rightarrow> SimpleType" where
  "typeOf m = fst (call (getType m))"

section \<open>What the file imports\<close>

text \<open>
  A thrown value. Every imported operation that can throw returns \<open>error + 'a\<close>, with
  \<open>Inl\<close> for the exception.
\<close>

datatype error = Error string

text \<open>
  The functions and tables get-html-collection.ts imports and does not define: the file
  system and \<open>JSON.parse\<close> of the platform, the normalizer \<open>parseHtmlData\<close>, the three
  merge functions, the type resolver (\<open>hasTypeForAttrName\<close>, \<open>html5TagAttrType\<close>) and the
  baseline tables of vscode-html-languageservice. They are parameters of the model.
  \<open>existsSync\<close> answers without throwing; the resolver is a pure function of the name.
\<close>

record ('t, 'v) Imports =
  existsSync :: "string \<Rightarrow> bool"
  readFileSync :: "string \<Rightarrow> error + string"
  JSON_parse :: "string \<Rightarrow> error + ('t, 'v) HtmlData"
  parseHtmlData :: "('t, 'v) HtmlData \<Rightarrow> error + HtmlDataCollection"
  mergeHtmlTags :: "HtmlTag list \<Rightarrow> error + HtmlTag list"
  mergeHtmlAttrs :: "HtmlAttr list \<Rightarrow> error + HtmlAttr list"
  mergeHtmlEvents :: "HtmlEvent list \<Rightarrow> error + HtmlEvent list"
  hasTypeForAttrName :: "string \<Rightarrow> bool"
  html5TagAttrType :: "string \<Rightarrow> SimpleType"
  HTML5_TAGS :: "'t list"
  HTML5_GLOBAL_ATTRIBUTES :: "IAttributeData list"
  HTML5_EVENTS :: "IAttributeData list"
  ARIA_ATTRIBUTES :: "IAttributeData list"
  HTML5_VALUE_MAP :: 'v

text \<open>
  The configuration, as far as the file reads it. \<open>customHtmlData\<close> is one source or a
  sequence of sources.
\<close>

datatype 'a OneOrMany = One 'a | Many "'a list"

record ('t, 'v) Config =
  customHtmlData :: "('t, 'v) HtmlData OneOrMany"
  globalHtmlTags :: "string list"
  globalHtmlAttributes :: "string list"
  globalHtmlEvents :: "string list"

section \<open>getUserConfigHtmlCollection\<close>

text \<open>
  Line 19: the sources the loop runs over,
  \<open>Array.isArray(config.customHtmlData) ? config.customHtmlData : [config.customHtmlData]\<close>.
\<close>

definition sourcesOf :: "('t, 'v) Config \<Rightarrow> ('t, 'v) HtmlData list" where
  "sourcesOf config = (case customHtmlData config of Many ds \<Rightarrow> ds | One d \<Rightarrow> [d])"

text \<open>
  Line 22: a string that names an existing file is read and parsed as JSON; anything else
  is the data itself. Reading and parsing can throw.
\<close>

definition resolveData ::
  "('t, 'v) Imports \<Rightarrow> ('t, 'v) HtmlData \<Rightarrow> error + ('t, 'v) HtmlData" where
  "resolveData X source =
     (case source of
        Str path \<Rightarrow>
          (if existsSync X path
           then (case readFileSync X path of
                   Inl e \<Rightarrow> Inl e
                 | Inr text \<Rightarrow> JSON_parse X text)
           else Inr source)
      | Document d \<Rightarrow> Inr source)"

text \<open>
  Lines 24 to 28: the new running collection. The three merges run in the order written;
  if one throws, the object is not built and the assignment does not happen.
\<close>

definition mergeCollection ::
  "('t, 'v) Imports \<Rightarrow> HtmlDataCollection \<Rightarrow> HtmlDataCollection
   \<Rightarrow> error + HtmlDataCollection" where
  "mergeCollection X collection parsedCollection =
     (case mergeHtmlTags X (tags collection @ tags parsedCollection) of
        Inl e \<Rightarrow> Inl e
      | Inr ts \<Rightarrow>
          (case mergeHtmlAttrs X (attrs collection @ attrs parsedCollection) of
             Inl e \<Rightarrow> Inl e
           | Inr as \<Rightarrow>
               (case mergeHtmlEvents X (HtmlDataCollection.events collection
                                          @ HtmlDataCollection.events parsedCollection) of
                  Inl e \<Rightarrow> Inl e
                | Inr es \<Rightarrow> Inr \<lparr>tags = ts, attrs = as, events = es\<rparr>)))"

text \<open>
  The body of the \<open>try\<close> block, lines 21 to 28. The calls of the logger (the trace of
  line 21, the report of line 30) return nothing the function reads; the logger is taken
  not to throw, and its calls are left out.
\<close>

definition tryBlock ::
  "('t, 'v) Imports \<Rightarrow> HtmlDataCollection \<Rightarrow> ('t, 'v) HtmlData
   \<Rightarrow> error + HtmlDataCollection" where
  "tryBlock X collection source =
     (case resolveData X source of
        Inl e \<Rightarrow> Inl e
      | Inr data \<Rightarrow>
          (case parseHtmlData X data of
             Inl e \<Rightarrow> Inl e
           | Inr parsedCollection \<Rightarrow> mergeCollection X collection parsedCollection))"

text \<open>
  One round of the loop, lines 20 to 31: the \<open>catch\<close> logs the error and the running
  collection stays as it was.
\<close>

definition loopBody ::
  "('t, 'v) Imports \<Rightarrow> HtmlDataCollection \<Rightarrow> ('t, 'v) HtmlData \<Rightarrow> HtmlDataCollection" where
  "loopBody X collection source =
     (case tryBlock X collection source of
        Inl e \<Rightarrow> collection
      | Inr collection' \<Rightarrow> collection')"

text \<open>Lines 17 to 34: the loop over the sources, from the empty collection.\<close>

definition customCollection ::
  "('t, 'v) Imports \<Rightarrow> ('t, 'v) HtmlData list \<Rightarrow> HtmlDataCollection" where
  "customCollection X sources =
     foldl (loopBody X) \<lparr>tags = [], attrs = [], events = []\<rparr> sources"

text \<open>Lines 36 to 63: the entities made from the three lists of global names.\<close>

definition tagOfName :: "string \<Rightarrow> HtmlTag" where
  "tagOfName tagName' =
     \<lparr>tagName = tagName', description = None, builtIn = None,
      attributes = [], properties = [], events = [], slots = []\<rparr>"

definition attrOfName :: "string \<Rightarrow> HtmlAttr" where
  "attrOfName attrName =
     \<lparr>kind = Some Attribute, name = attrName, description = None, fromTagName = None,
      builtIn = None, getType = lazy (\<lambda>_. SimpleType ANY [])\<rparr>"

definition eventOfName :: "string \<Rightarrow> HtmlEvent" where
  "eventOfName eventName =
     \<lparr>kind = Some Event, name = eventName, description = None, fromTagName = None,
      builtIn = None, getType = lazy (\<lambda>_. SimpleType ANY [])\<rparr>"

definition getUserConfigHtmlCollection ::
  "('t, 'v) Imports \<Rightarrow> ('t, 'v) Config \<Rightarrow> HtmlDataCollection" where
  "getUserConfigHtmlCollection X config =
     (let collection = customCollection X (sourcesOf config);
          tags' = map tagOfName (globalHtmlTags config);
          attrs' = map attrOfName (globalHtmlAttributes config);
          events' = map eventOfName (globalHtmlEvents config)
      in \<lparr>tags = tags' @ tags collection,
          attrs = attrs' @ attrs collection,
          events = events' @ HtmlDataCollection.events collection\<rparr>)"

section \<open>getBuiltInHtmlCollection\<close>

text \<open>Lines 80 to 87: the \<open>svg\<close> tag.\<close>

definition svgTag :: HtmlTag where
  "svgTag =
     \<lparr>tagName = ''svg'', description = Some '''', builtIn = None,
      attributes = [], properties = [], events = [], slots = []\<rparr>"

text \<open>Lines 89 to 120: the \<open>slot\<close> tag, with its event and its two attributes.\<close>

definition slotchangeDescription :: string where
  "slotchangeDescription =
     ''The slotchange event is fired on an HTMLSlotElement instance (<slot> element) when the node(s) contained in that slot change.''
     @ [CHR 0x0A, CHR 0x0A]
     @ ''Note: the slotchange event doesn't fire if the children of a slotted node change ''
     @ [CHR 0xE2, CHR 0x80, CHR 0x94]
     @ '' only if you change (e.g. add or delete) the actual nodes themselves.''"

definition slotTag :: HtmlTag where
  "slotTag =
     \<lparr>tagName = ''slot'', description = Some '''', builtIn = None,
      attributes =
        [\<lparr>kind = Some Attribute, name = ''name'', description = None,
          fromTagName = Some ''slot'', builtIn = Some True,
          getType = lazy (\<lambda>_. SimpleType STRING [])\<rparr>,
         \<lparr>kind = Some Attribute, name = ''onslotchange'', description = None,
          fromTagName = Some ''slot'', builtIn = Some True,
          getType = lazy (\<lambda>_. SimpleType STRING [])\<rparr>],
      properties = [],
      events =
        [\<lparr>kind = None, name = ''slotchange'', description = Some slotchangeDescription,
          fromTagName = Some ''slot'', builtIn = Some True,
          getType = lazy (\<lambda>_. SimpleType ANY [])\<rparr>],
      slots = []\<rparr>"

text \<open>Lines 122 to 127: the global \<open>slot\<close> attribute.\<close>

definition slotAttr :: HtmlAttr where
  "slotAttr =
     \<lparr>kind = Some Attribute, name = ''slot'', description = None, fromTagName = None,
      builtIn = Some True, getType = lazy (\<lambda>_. SimpleType STRING [])\<rparr>"

text \<open>
  \<open>const el = result.tags.find(t => t.tagName === n); if (el != null) { ... }\<close>: the
  first tag of that name, if there is one, is changed in place; the list keeps its order
  and its length. (The tags of the list are taken to be distinct objects.)
\<close>

fun patchTag :: "string \<Rightarrow> (HtmlTag \<Rightarrow> HtmlTag) \<Rightarrow> HtmlTag list \<Rightarrow> HtmlTag list" where
  "patchTag n f [] = []"
| "patchTag n f (t # ts) = (if tagName t = n then f t # ts else t # patchTag n f ts)"

text \<open>Lines 131 to 143 and 148 to 160: the \<open>value\<close> property of textarea and input.\<close>

definition valueProp :: "string \<Rightarrow> HtmlProp" where
  "valueProp tag =
     \<lparr>kind = Some Property, name = ''value'', description = None,
      fromTagName = Some tag, builtIn = Some True,
      getType = lazy (\<lambda>_. SimpleType UNION [SimpleType STRING [], SimpleType NULL []])\<rparr>"

definition pushValueProp :: "string \<Rightarrow> HtmlTag \<Rightarrow> HtmlTag" where
  "pushValueProp tag el = el\<lparr>properties := properties el @ [valueProp tag]\<rparr>"

text \<open>Lines 165 to 174 and 179 to 197: the attributes added to audio and video.\<close>

definition controlslistAttr :: "string \<Rightarrow> HtmlAttr" where
  "controlslistAttr tag =
     \<lparr>kind = Some Attribute, name = ''controlslist'', description = None,
      fromTagName = Some tag, builtIn = Some True,
      getType = lazy (\<lambda>_. SimpleType STRING [])\<rparr>"

definition playsinlineDescription :: string where
  "playsinlineDescription =
     ''The playsinline attribute is a boolean attribute. If present, it serves as a hint to the user agent that the video ought to be displayed ''
     @ [CHR 0x22] @ ''inline'' @ [CHR 0x22]
     @ '' in the document by default, constrained to the element's playback area, instead of being displayed fullscreen or in an independent resizable window.''"

definition playsinlineAttr :: HtmlAttr where
  "playsinlineAttr =
     \<lparr>kind = Some Attribute, name = ''playsinline'',
      description = Some playsinlineDescription,
      fromTagName = Some ''video'', builtIn = Some True,
      getType = lazy (\<lambda>_. SimpleType BOOLEAN [])\<rparr>"

definition patchAudio :: "HtmlTag \<Rightarrow> HtmlTag" where
  "patchAudio audioElement =
     audioElement\<lparr>attributes := attributes audioElement @ [controlslistAttr ''audio'']\<rparr>"

definition patchVideo :: "HtmlTag \<Rightarrow> HtmlTag" where
  "patchVideo videoElement =
     videoElement\<lparr>attributes :=
       attributes videoElement @ [controlslistAttr ''video'', playsinlineAttr]\<rparr>"

text \<open>
  Line 202: \<open>name.replace(/^on/, "")\<close> removes the two characters \<open>on\<close> when the name
  starts with them, once, and leaves every other name as it is.
\<close>

definition replaceOn :: "string \<Rightarrow> string" where
  "replaceOn s = (if take 2 s = ''on'' then drop 2 s else s)"

text \<open>Lines 201 to 206: the global event pushed for an entry of \<open>HTML5_EVENTS\<close>.\<close>

definition bareEvent :: "IAttributeData \<Rightarrow> HtmlEvent" where
  "bareEvent globalEvent =
     \<lparr>kind = None, name = replaceOn (IAttributeData.name globalEvent),
      description = IAttributeData.description globalEvent,
      fromTagName = None, builtIn = Some True,
      getType = lazy (\<lambda>_. SimpleType ANY [])\<rparr>"

text \<open>Lines 80 to 207: everything the function does to the normalizer's result in place.\<close>

definition applyPatches ::
  "IAttributeData list \<Rightarrow> HtmlDataCollection \<Rightarrow> HtmlDataCollection" where
  "applyPatches html5Events result =
     (let tags1 = tags result @ [svgTag];
          tags2 = tags1 @ [slotTag];
          attrs1 = attrs result @ [slotAttr];
          tags3 = patchTag ''textarea'' (pushValueProp ''textarea'') tags2;
          tags4 = patchTag ''input'' (pushValueProp ''input'') tags3;
          tags5 = patchTag ''audio'' patchAudio tags4;
          tags6 = patchTag ''video'' patchVideo tags5;
          events1 = HtmlDataCollection.events result @ map bareEvent html5Events
      in result\<lparr>tags := tags6, attrs := attrs1, events := events1\<rparr>)"

text \<open>
  Lines 221 to 233. The test calls the accessor only when the resolver does not know the
  name (\<open>||\<close> evaluates its right side only then). An attribute that passes the test is
  copied with a new accessor around the resolver's answer, which is computed at once. Any
  other attribute is returned as the object it is, its accessor called once by the test.
\<close>

definition addMissingAttrType :: "('t, 'v) Imports \<Rightarrow> HtmlAttr \<Rightarrow> HtmlAttr" where
  "addMissingAttrType X attr =
     (if hasTypeForAttrName X (name attr)
      then (let newType = html5TagAttrType X (name attr)
            in attr\<lparr>getType := lazy (\<lambda>_. newType)\<rparr>)
      else (let (t, called) = call (getType attr)
            in if SimpleType.kind t = ANY
               then (let newType = html5TagAttrType X (name attr)
                     in attr\<lparr>getType := lazy (\<lambda>_. newType)\<rparr>)
               else attr\<lparr>getType := called\<rparr>))"

definition addMissingAttrTypes :: "('t, 'v) Imports \<Rightarrow> HtmlAttr list \<Rightarrow> HtmlAttr list" where
  "addMissingAttrTypes X attrs' = map (addMissingAttrType X) attrs'"

text \<open>Lines 209 to 218: the object returned.\<close>

definition markBuiltIn :: "HtmlMember \<Rightarrow> HtmlMember" where
  "markBuiltIn m = m\<lparr>HtmlMember.builtIn := Some True\<rparr>"

definition finishTag :: "('t, 'v) Imports \<Rightarrow> HtmlTag \<Rightarrow> HtmlTag" where
  "finishTag X tag =
     tag\<lparr>builtIn := Some True,
         attributes := addMissingAttrTypes X (map markBuiltIn (attributes tag))\<rparr>"

definition finishCollection ::
  "('t, 'v) Imports \<Rightarrow> HtmlDataCollection \<Rightarrow> HtmlDataCollection" where
  "finishCollection X result =
     result\<lparr>tags := map (finishTag X) (tags result),
            attrs := addMissingAttrTypes X (map markBuiltIn (attrs result)),
            events := map markBuiltIn (HtmlDataCollection.events result)\<rparr>"

text \<open>Lines 73 to 78: the document the baseline tables make.\<close>

definition baseline :: "('t, 'v) Imports \<Rightarrow> ('t, 'v) HtmlData" where
  "baseline X =
     Document \<lparr>version = 1, tags = HTML5_TAGS X,
               globalAttributes = HTML5_GLOBAL_ATTRIBUTES X @ HTML5_EVENTS X @ ARIA_ATTRIBUTES X,
               valueSets = HTML5_VALUE_MAP X\<rparr>"

text \<open>
  The function. The call of the normalizer is not inside a \<open>try\<close>: if it throws, so does
  the function.
\<close>

definition getBuiltInHtmlCollection :: "('t, 'v) Imports \<Rightarrow> error + HtmlDataCollection" where
  "getBuiltInHtmlCollection X =
     (case parseHtmlData X (baseline X) of
        Inl e \<Rightarrow> Inl e
      | Inr result \<Rightarrow> Inr (finishCollection X (applyPatches (HTML5_EVENTS X) result)))"

section \<open>Notions the properties are stated with\<close>

text \<open>
  A source fails when resolving it (reading the file, parsing its JSON) or normalizing it
  throws.
\<close>

definition sourceFails :: "('t, 'v) Imports \<Rightarrow> ('t, 'v) HtmlData \<Rightarrow> bool" where
  "sourceFails X source =
     (case resolveData X source of
        Inl e \<Rightarrow> True
      | Inr data \<Rightarrow> (case parseHtmlData X data of Inl e \<Rightarrow> True | Inr parsed \<Rightarrow> False))"



section \<open>Small instances of the imports\<close>

text \<open>
  Concrete imports to run the two builders on: a normalizer that makes a bare tag of every
  tag entry (here a tag entry is its name) and an untyped global attribute of every global
  attribute entry, and rejects a string; merges that keep the list they are given; a
  resolver that knows \<open>hidden\<close> as a boolean and nothing else; a file system whose only
  file cannot be read.
\<close>

definition demoEntry :: "string \<Rightarrow> IAttributeData" where
  "demoEntry n = \<lparr>IAttributeData.name = n, IAttributeData.description = None\<rparr>"

definition demoAttr :: "IAttributeData \<Rightarrow> HtmlAttr" where
  "demoAttr g =
     \<lparr>kind = Some Attribute, name = IAttributeData.name g,
      description = IAttributeData.description g, fromTagName = None, builtIn = None,
      getType = lazy (\<lambda>_. SimpleType ANY [])\<rparr>"

definition demoParse :: "(string, unit) HtmlData \<Rightarrow> error + HtmlDataCollection" where
  "demoParse data =
     (case data of
        Str s \<Rightarrow> Inl (Error ''not a document'')
      | Document d \<Rightarrow>
          Inr \<lparr>tags = map tagOfName (HtmlDataV1.tags d),
               attrs = map demoAttr (globalAttributes d),
               events = []\<rparr>)"

definition demoImports :: "(string, unit) Imports" where
  "demoImports =
     \<lparr>existsSync = (\<lambda>path. path = ''locked.json''),
      readFileSync = (\<lambda>path. Inl (Error ''EACCES'')),
      JSON_parse = (\<lambda>text. Inl (Error ''SyntaxError'')),
      parseHtmlData = demoParse,
      mergeHtmlTags = Inr, mergeHtmlAttrs = Inr, mergeHtmlEvents = Inr,
      hasTypeForAttrName = (\<lambda>n. n = ''hidden''),
      html5TagAttrType =
        (\<lambda>n. if n = ''hidden'' then SimpleType BOOLEAN [] else SimpleType ANY []),
      HTML5_TAGS = [''div'', ''video''],
      HTML5_GLOBAL_ATTRIBUTES = [demoEntry ''hidden''],
      HTML5_EVENTS = [demoEntry ''onclick''],
      ARIA_ATTRIBUTES = [],
      HTML5_VALUE_MAP = ()\<rparr>"

text \<open>What \<open>demoParse\<close> makes of the baseline of \<open>demoImports\<close>.\<close>

definition demoNormalized :: HtmlDataCollection where
  "demoNormalized =
     \<lparr>tags = [tagOfName ''div'', tagOfName ''video''],
      attrs = [demoAttr (demoEntry ''hidden''), demoAttr (demoEntry ''onclick'')],
      events = []\<rparr>"

definition demoDocument :: "(string, unit) HtmlData" where
  "demoDocument =
     Document \<lparr>version = 1, tags = [''my-card''],
               globalAttributes = [demoEntry ''theme''],
               valueSets = ()\<rparr>"

definition demoConfig :: "(string, unit) Config" where
  "demoConfig =
     \<lparr>customHtmlData = Many [demoDocument, Str ''missing.json''],
      globalHtmlTags = [''my-widget''],
      globalHtmlAttributes = [''size''],
      globalHtmlEvents = [''changed'']\<rparr>"

text \<open>A configuration whose two sources both fail: a missing file and an unreadable one.\<close>

definition brokenConfig :: "(string, unit) Config" where
  "brokenConfig =
     demoConfig\<lparr>customHtmlData := Many [Str ''missing.json'', Str ''locked.json'']\<rparr>"

text \<open>An attribute of a given name whose accessor is not yet called.\<close>

definition demoTyped :: "string \<Rightarrow> SimpleTypeKind \<Rightarrow> HtmlAttr" where
  "demoTyped n k =
     \<lparr>kind = Some Attribute, name = n, description = None, fromTagName = None,
      builtIn = None, getType = lazy (\<lambda>_. SimpleType k [])\<rparr>"

text \<open>
  The same imports with a normalizer that puts an event on a tag and leaves the event's
  \<open>builtIn\<close> unset.
\<close>

definition toggleEvent :: HtmlEvent where
  "toggleEvent =
     \<lparr>kind = Some Event, name = ''toggle'', description = None,
      fromTagName = Some ''details'', builtIn = None,
      getType = lazy (\<lambda>_. SimpleType ANY [])\<rparr>"

definition eventNormalized :: HtmlDataCollection where
  "eventNormalized =
     \<lparr>tags = [(tagOfName ''details'')\<lparr>HtmlTag.events := [toggleEvent]\<rparr>],
      attrs = [], events = []\<rparr>"

definition eventImports :: "(string, unit) Imports" where
  "eventImports = demoImports\<lparr>parseHtmlData := (\<lambda>data. Inr eventNormalized)\<rparr>"


section \<open>Facts about the accessor\<close>

lemma call_Deferred [simp]: "call (Deferred func) = (func (), Cached (func ()))"
  by (simp add: Let_def)

declare call.simps(1) [simp del]

lemma call_again: "call (snd (call g)) = (fst (call g), snd (call g))"
  by (cases g) simp_all

lemma call_cached: "snd (call g) = Cached (fst (call g))"
  by (cases g) simp_all


lemma typeOf_update:
  "typeOf (a\<lparr>getType := lazy f\<rparr>) = f ()"
  "typeOf (a\<lparr>getType := snd (call (getType a))\<rparr>) = typeOf a"
  "typeOf (a\<lparr>HtmlMember.builtIn := b\<rparr>) = typeOf a"
  by (simp_all add: typeOf_def lazy_def call_again)

lemma typeOf_ofName:
  "typeOf (attrOfName n) = SimpleType ANY []" "typeOf (eventOfName n) = SimpleType ANY []"
  by (simp_all add: typeOf_def attrOfName_def eventOfName_def lazy_def)

section \<open>The user builder\<close>

lemma user_collection_parts:
  "tags (getUserConfigHtmlCollection X config)
     = map tagOfName (globalHtmlTags config) @ tags (customCollection X (sourcesOf config))"
  "attrs (getUserConfigHtmlCollection X config)
     = map attrOfName (globalHtmlAttributes config) @ attrs (customCollection X (sourcesOf config))"
  "HtmlDataCollection.events (getUserConfigHtmlCollection X config)
     = map eventOfName (globalHtmlEvents config)
       @ HtmlDataCollection.events (customCollection X (sourcesOf config))"
  by (simp_all add: getUserConfigHtmlCollection_def Let_def)

lemma tryBlock_fails: "sourceFails X s \<Longrightarrow> \<exists>e. tryBlock X c s = Inl e"
  by (auto simp: sourceFails_def tryBlock_def split: sum.splits)

lemma loopBody_fails: "sourceFails X s \<Longrightarrow> loopBody X c s = c"
  using tryBlock_fails [of X s c] by (auto simp: loopBody_def)


lemma demo_missing_fails: "sourceFails demoImports (Str ''missing.json'')"
  by (simp add: sourceFails_def resolveData_def demoImports_def demoParse_def)

lemma demo_locked_fails: "sourceFails demoImports (Str ''locked.json'')"
  by (simp add: sourceFails_def resolveData_def demoImports_def demoParse_def)


lemma demo_broken_collection:
  "customCollection demoImports [Str ''missing.json'', Str ''locked.json'']
   = \<lparr>tags = [], attrs = [], events = []\<rparr>"
  by (simp add: customCollection_def loopBody_fails demo_missing_fails demo_locked_fails)


lemma brokenConfig_names:
  "globalHtmlTags brokenConfig = [''my-widget'']"
  "globalHtmlAttributes brokenConfig = [''size'']"
  "globalHtmlEvents brokenConfig = [''changed'']"
  "sourcesOf brokenConfig = [Str ''missing.json'', Str ''locked.json'']"
  by (simp_all add: brokenConfig_def demoConfig_def sourcesOf_def)



text \<open>
  C9. A configuration whose \<open>customHtmlData\<close> is one source \<open>d\<close>, not a sequence, gives
  the collection that the one-element sequence \<open>[d]\<close> gives, the other fields being equal.
\<close>

theorem single_source_is_singleton:
  "getUserConfigHtmlCollection X (config\<lparr>customHtmlData := One d\<rparr>)
   = getUserConfigHtmlCollection X (config\<lparr>customHtmlData := Many [d]\<rparr>)"
  by (simp add: getUserConfigHtmlCollection_def sourcesOf_def)

text \<open>
  C10. The result of \<open>getUserConfigHtmlCollection\<close> starts with the entities made from
  \<open>globalHtmlTags\<close>, \<open>globalHtmlAttributes\<close> and \<open>globalHtmlEvents\<close>, one for each name,
  and every such entity has its \<open>builtIn\<close> flag unset: none of them is marked built-in.
\<close>

theorem synthesized_not_builtIn:
  "tags (getUserConfigHtmlCollection X config)
     = map tagOfName (globalHtmlTags config) @ tags (customCollection X (sourcesOf config))
   \<and> attrs (getUserConfigHtmlCollection X config)
     = map attrOfName (globalHtmlAttributes config) @ attrs (customCollection X (sourcesOf config))
   \<and> HtmlDataCollection.events (getUserConfigHtmlCollection X config)
     = map eventOfName (globalHtmlEvents config)
       @ HtmlDataCollection.events (customCollection X (sourcesOf config))
   \<and> (\<forall>n. HtmlTag.builtIn (tagOfName n) = None)
   \<and> (\<forall>n. HtmlMember.builtIn (attrOfName n) = None)
   \<and> (\<forall>n. HtmlMember.builtIn (eventOfName n) = None)"
  by (simp add: user_collection_parts tagOfName_def attrOfName_def eventOfName_def)

text \<open>
  C6. When \<open>globalHtmlTags\<close> is exactly \<open>["my-widget"]\<close> and the custom data sources
  contribute nothing (the loop over them ends with the empty collection), the result has
  exactly one tag, named \<open>my-widget\<close>, with no attributes, properties, events or slots;
  its attributes and events are the ones made from \<open>globalHtmlAttributes\<close> and
  \<open>globalHtmlEvents\<close>, and the accessor of each yields the \<open>ANY\<close> descriptor.
\<close>

theorem only_my_widget:
  assumes "globalHtmlTags config = [''my-widget'']"
    and "customCollection X (sourcesOf config) = \<lparr>tags = [], attrs = [], events = []\<rparr>"
  shows "tags (getUserConfigHtmlCollection X config)
         = [\<lparr>tagName = ''my-widget'', description = None, builtIn = None,
             attributes = [], properties = [], events = [], slots = []\<rparr>]
       \<and> attrs (getUserConfigHtmlCollection X config) = map attrOfName (globalHtmlAttributes config)
       \<and> HtmlDataCollection.events (getUserConfigHtmlCollection X config)
         = map eventOfName (globalHtmlEvents config)
       \<and> (\<forall>m \<in> set (attrs (getUserConfigHtmlCollection X config)
                      @ HtmlDataCollection.events (getUserConfigHtmlCollection X config)).
             typeOf m = SimpleType ANY [])"
  using assms by (auto simp: user_collection_parts tagOfName_def typeOf_ofName)

text \<open>On \<open>brokenConfig\<close>, whose two sources both fail.\<close>

theorem only_my_widget_witness:
  "map tagName (tags (getUserConfigHtmlCollection demoImports brokenConfig)) = [''my-widget'']
   \<and> map (\<lambda>m. (name m, typeOf m)) (attrs (getUserConfigHtmlCollection demoImports brokenConfig))
     = [(''size'', SimpleType ANY [])]
   \<and> map (\<lambda>m. (name m, typeOf m))
       (HtmlDataCollection.events (getUserConfigHtmlCollection demoImports brokenConfig))
     = [(''changed'', SimpleType ANY [])]"
proof -
  have empty: "customCollection demoImports (sourcesOf brokenConfig)
               = \<lparr>tags = [], attrs = [], events = []\<rparr>"
    by (simp add: brokenConfig_names demo_broken_collection)
  note w = only_my_widget [OF brokenConfig_names(1) empty]
  have t: "map tagName (tags (getUserConfigHtmlCollection demoImports brokenConfig))
           = [''my-widget'']"
    using w by simp
  have a: "attrs (getUserConfigHtmlCollection demoImports brokenConfig) = [attrOfName ''size'']"
    using w by (simp add: brokenConfig_names)
  have e: "HtmlDataCollection.events (getUserConfigHtmlCollection demoImports brokenConfig)
           = [eventOfName ''changed'']"
    using w by (simp add: brokenConfig_names)
  have "typeOf (attrOfName ''size'') = SimpleType ANY []"
    "typeOf (eventOfName ''changed'') = SimpleType ANY []"
    using w a e by simp_all
  with t a e show ?thesis
    by (simp add: attrOfName_def eventOfName_def)
qed

section \<open>addMissingAttrTypes\<close>

lemma addMissingAttrType_cases:
  "addMissingAttrType X a =
     (if hasTypeForAttrName X (name a) \<or> SimpleType.kind (typeOf a) = ANY
      then a\<lparr>getType := lazy (\<lambda>_. html5TagAttrType X (name a))\<rparr>
      else a\<lparr>getType := snd (call (getType a))\<rparr>)"
  by (simp add: addMissingAttrType_def typeOf_def Let_def split: prod.splits)

lemma addMissingAttrType_fields:
  "name (addMissingAttrType X a) = name a"
  "HtmlMember.builtIn (addMissingAttrType X a) = HtmlMember.builtIn a"
  "fromTagName (addMissingAttrType X a) = fromTagName a"
  "HtmlMember.kind (addMissingAttrType X a) = HtmlMember.kind a"
  "HtmlMember.description (addMissingAttrType X a) = HtmlMember.description a"
  by (simp_all add: addMissingAttrType_cases)


text \<open>
  C3. \<open>addMissingAttrTypes\<close> keeps the length and the order of the list. The attribute it
  returns at a position has a new accessor around the resolver's answer for its name if and
  only if the resolver knows the name (\<open>hasTypeForAttrName\<close>) or the attribute's type has
  kind \<open>ANY\<close>; it is then a copy with that accessor and the same other fields, and its
  type is the resolver's answer. Every other attribute is returned as it is: the same
  fields, the same accessor (which the test has called, so its cache is filled) and the
  same type; if its accessor had been called before, the value returned equals the
  value given.
\<close>

theorem addMissingAttrTypes_replaces_iff:
  "length (addMissingAttrTypes X as) = length as
   \<and> (\<forall>i < length as.
        let a = as ! i;
            r = addMissingAttrTypes X as ! i;
            answer = html5TagAttrType X (name a);
            test = (hasTypeForAttrName X (name a) \<or> SimpleType.kind (typeOf a) = ANY)
        in (getType r = lazy (\<lambda>_. answer) \<longleftrightarrow> test)
         \<and> (test \<longrightarrow> r = a\<lparr>getType := lazy (\<lambda>_. answer)\<rparr> \<and> typeOf r = answer)
         \<and> (\<not> test \<longrightarrow> r = a\<lparr>getType := snd (call (getType a))\<rparr> \<and> typeOf r = typeOf a
                       \<and> (\<forall>v. getType a = Cached v \<longrightarrow> r = a)))"
proof -
  have one: "(getType (addMissingAttrType X a) = lazy (\<lambda>_. html5TagAttrType X (name a))
               \<longleftrightarrow> (hasTypeForAttrName X (name a) \<or> SimpleType.kind (typeOf a) = ANY))
           \<and> ((hasTypeForAttrName X (name a) \<or> SimpleType.kind (typeOf a) = ANY)
               \<longrightarrow> addMissingAttrType X a = a\<lparr>getType := lazy (\<lambda>_. html5TagAttrType X (name a))\<rparr>
                 \<and> typeOf (addMissingAttrType X a) = html5TagAttrType X (name a))
           \<and> (\<not> (hasTypeForAttrName X (name a) \<or> SimpleType.kind (typeOf a) = ANY)
               \<longrightarrow> addMissingAttrType X a = a\<lparr>getType := snd (call (getType a))\<rparr>
                 \<and> typeOf (addMissingAttrType X a) = typeOf a
                 \<and> (\<forall>v. getType a = Cached v \<longrightarrow> addMissingAttrType X a = a))" for a
  proof (cases "hasTypeForAttrName X (name a) \<or> SimpleType.kind (typeOf a) = ANY")
    case True
    then show ?thesis
      by (simp add: addMissingAttrType_cases typeOf_update)
  next
    case False
    have "getType (addMissingAttrType X a) \<noteq> lazy (\<lambda>_. html5TagAttrType X (name a))"
      using False by (simp add: addMissingAttrType_cases call_cached lazy_def)
    moreover have "\<forall>v. getType a = Cached v \<longrightarrow> addMissingAttrType X a = a"
      using False by (auto simp: addMissingAttrType_cases)
    ultimately show ?thesis
      using False by (simp add: addMissingAttrType_cases typeOf_update)
  qed
  show ?thesis
  proof (intro conjI allI impI)
    show "length (addMissingAttrTypes X as) = length as"
      by (simp add: addMissingAttrTypes_def)
  next
    fix i assume "i < length as"
    then have nth: "addMissingAttrTypes X as ! i = addMissingAttrType X (as ! i)"
      by (simp add: addMissingAttrTypes_def)
    show "let a = as ! i;
              r = addMissingAttrTypes X as ! i;
              answer = html5TagAttrType X (name a);
              test = (hasTypeForAttrName X (name a) \<or> SimpleType.kind (typeOf a) = ANY)
          in (getType r = lazy (\<lambda>_. answer) \<longleftrightarrow> test)
           \<and> (test \<longrightarrow> r = a\<lparr>getType := lazy (\<lambda>_. answer)\<rparr> \<and> typeOf r = answer)
           \<and> (\<not> test \<longrightarrow> r = a\<lparr>getType := snd (call (getType a))\<rparr> \<and> typeOf r = typeOf a
                         \<and> (\<forall>v. getType a = Cached v \<longrightarrow> r = a))"
      unfolding Let_def nth by (rule one)
  qed
qed

text \<open>
  With the resolver of \<open>demoImports\<close>: \<open>title\<close>, typed as a string and unknown to the
  resolver, comes back with its own accessor, now cached; \<open>hidden\<close>, typed as a string
  and known to the resolver, comes back with the resolver's boolean.
\<close>

theorem addMissingAttrTypes_replaces_iff_witness:
  "addMissingAttrTypes demoImports [demoTyped ''title'' STRING, demoTyped ''hidden'' STRING] ! 0
     = (demoTyped ''title'' STRING)\<lparr>getType := Cached (SimpleType STRING [])\<rparr>
   \<and> addMissingAttrTypes demoImports [demoTyped ''title'' STRING, demoTyped ''hidden'' STRING] ! 1
     = (demoTyped ''hidden'' STRING)\<lparr>getType := lazy (\<lambda>_. SimpleType BOOLEAN [])\<rparr>"
proof -
  let ?as = "[demoTyped ''title'' STRING, demoTyped ''hidden'' STRING]"
  have facts: "\<forall>i < length ?as.
        let a = ?as ! i;
            r = addMissingAttrTypes demoImports ?as ! i;
            answer = html5TagAttrType demoImports (name a);
            test = (hasTypeForAttrName demoImports (name a) \<or> SimpleType.kind (typeOf a) = ANY)
        in (getType r = lazy (\<lambda>_. answer) \<longleftrightarrow> test)
         \<and> (test \<longrightarrow> r = a\<lparr>getType := lazy (\<lambda>_. answer)\<rparr> \<and> typeOf r = answer)
         \<and> (\<not> test \<longrightarrow> r = a\<lparr>getType := snd (call (getType a))\<rparr> \<and> typeOf r = typeOf a
                       \<and> (\<forall>v. getType a = Cached v \<longrightarrow> r = a))"
    using addMissingAttrTypes_replaces_iff [of demoImports ?as] by (rule conjunct2)
  have title: "\<not> (hasTypeForAttrName demoImports (name (demoTyped ''title'' STRING))
                  \<or> SimpleType.kind (typeOf (demoTyped ''title'' STRING)) = ANY)"
    by (simp add: demoImports_def demoTyped_def typeOf_def lazy_def)
  have hidden: "hasTypeForAttrName demoImports (name (demoTyped ''hidden'' STRING))"
    "html5TagAttrType demoImports (name (demoTyped ''hidden'' STRING)) = SimpleType BOOLEAN []"
    by (simp_all add: demoImports_def demoTyped_def)
  have called: "snd (call (getType (demoTyped ''title'' STRING))) = Cached (SimpleType STRING [])"
    by (simp add: demoTyped_def lazy_def)
  have "addMissingAttrTypes demoImports ?as ! 0
        = (demoTyped ''title'' STRING)\<lparr>getType := Cached (SimpleType STRING [])\<rparr>"
    using facts [rule_format, of 0] title called by (simp add: Let_def)
  moreover have "addMissingAttrTypes demoImports ?as ! 1
        = (demoTyped ''hidden'' STRING)\<lparr>getType := lazy (\<lambda>_. SimpleType BOOLEAN [])\<rparr>"
    using facts [rule_format, of 1] hidden by (simp add: Let_def)
  ultimately show ?thesis by simp
qed

section \<open>The built-in builder\<close>

lemma length_patchTag: "length (patchTag n f ts) = length ts"
  by (induction ts) simp_all

lemma map_patchTag: "(\<And>t. p (f t) = p t) \<Longrightarrow> map p (patchTag n f ts) = map p ts"
  by (induction ts) simp_all






lemma patch_tagName:
  "tagName (pushValueProp n t) = tagName t"
  "tagName (patchAudio t) = tagName t"
  "tagName (patchVideo t) = tagName t"
  "tagName (finishTag X t) = tagName t"
  by (simp_all add: pushValueProp_def patchAudio_def patchVideo_def finishTag_def)

lemma patch_events:
  "HtmlTag.events (pushValueProp n t) = HtmlTag.events t"
  "HtmlTag.events (patchAudio t) = HtmlTag.events t"
  "HtmlTag.events (patchVideo t) = HtmlTag.events t"
  "HtmlTag.events (finishTag X t) = HtmlTag.events t"
  by (simp_all add: pushValueProp_def patchAudio_def patchVideo_def finishTag_def)

lemma applyPatches_parts:
  "tags (applyPatches ev r)
     = patchTag ''video'' patchVideo (patchTag ''audio'' patchAudio
         (patchTag ''input'' (pushValueProp ''input'')
           (patchTag ''textarea'' (pushValueProp ''textarea'') (tags r @ [svgTag, slotTag]))))"
  "attrs (applyPatches ev r) = attrs r @ [slotAttr]"
  "HtmlDataCollection.events (applyPatches ev r) = HtmlDataCollection.events r @ map bareEvent ev"
  by (simp_all add: applyPatches_def Let_def)

lemma finishCollection_parts:
  "tags (finishCollection X r) = map (finishTag X) (tags r)"
  "attrs (finishCollection X r) = addMissingAttrTypes X (map markBuiltIn (attrs r))"
  "HtmlDataCollection.events (finishCollection X r) = map markBuiltIn (HtmlDataCollection.events r)"
  by (simp_all add: finishCollection_def)

lemma getBuiltIn_Inr:
  "parseHtmlData X (baseline X) = Inr n \<Longrightarrow>
   getBuiltInHtmlCollection X = Inr (finishCollection X (applyPatches (HTML5_EVENTS X) n))"
  by (simp add: getBuiltInHtmlCollection_def)

lemma builtIn_names:
  "map tagName (tags (finishCollection X (applyPatches ev n)))
     = map tagName (tags n) @ [''svg'', ''slot'']"
  "map name (attrs (finishCollection X (applyPatches ev n))) = map name (attrs n) @ [''slot'']"
  "map name (HtmlDataCollection.events (finishCollection X (applyPatches ev n)))
     = map name (HtmlDataCollection.events n) @ map (\<lambda>g. replaceOn (IAttributeData.name g)) ev"
  by (simp_all add: finishCollection_parts applyPatches_parts map_patchTag patch_tagName
      addMissingAttrTypes_def addMissingAttrType_fields markBuiltIn_def o_def
      svgTag_def slotTag_def slotAttr_def bareEvent_def)

lemma builtIn_tag_events:
  "map HtmlTag.events (tags (finishCollection X (applyPatches ev n)))
   = map HtmlTag.events (tags n) @ [[], HtmlTag.events slotTag]"
  by (simp add: finishCollection_parts applyPatches_parts map_patchTag patch_events o_def
      svgTag_def)

lemma builtIn_flags:
  "t \<in> set (tags (finishCollection X r)) \<Longrightarrow> HtmlTag.builtIn t = Some True"
  "t \<in> set (tags (finishCollection X r)) \<Longrightarrow> a \<in> set (attributes t) \<Longrightarrow>
   HtmlMember.builtIn a = Some True"
  "a \<in> set (attrs (finishCollection X r)) \<Longrightarrow> HtmlMember.builtIn a = Some True"
  "e \<in> set (HtmlDataCollection.events (finishCollection X r)) \<Longrightarrow>
   HtmlMember.builtIn e = Some True"
  by (auto simp: finishCollection_parts finishTag_def addMissingAttrTypes_def
      addMissingAttrType_fields markBuiltIn_def)

lemma slotTag_events_builtIn: "map HtmlMember.builtIn (HtmlTag.events slotTag) = [Some True]"
  by (simp add: slotTag_def)

lemma replaceOn_on: "replaceOn (''on'' @ s) = s"
  by (simp add: replaceOn_def)

lemma replaceOn_other: "take 2 s \<noteq> ''on'' \<Longrightarrow> replaceOn s = s"
  by (simp add: replaceOn_def)

lemma demo_parse_baseline: "parseHtmlData demoImports (baseline demoImports) = Inr demoNormalized"
  by (simp add: demoImports_def baseline_def demoParse_def demoNormalized_def)

lemma event_parse_baseline: "parseHtmlData eventImports (baseline eventImports) = Inr eventNormalized"
  by (simp add: eventImports_def demoImports_def)



text \<open>
  C4. When the normalizer accepts the baseline, \<open>getBuiltInHtmlCollection\<close> returns a
  collection which, for every entry of \<open>HTML5_EVENTS\<close>, has a global event with
  \<open>builtIn\<close> true whose name is the entry's name after \<open>replaceOn\<close>. \<open>replaceOn\<close> takes
  one leading \<open>on\<close> off a name that starts with it and leaves any other name alone.
\<close>

theorem bare_event_registered:
  assumes "parseHtmlData X (baseline X) = Inr n" and "g \<in> set (HTML5_EVENTS X)"
  shows "\<exists>c. getBuiltInHtmlCollection X = Inr c
           \<and> (\<exists>e \<in> set (HtmlDataCollection.events c).
                 name e = replaceOn (IAttributeData.name g) \<and> HtmlMember.builtIn e = Some True)
           \<and> (\<forall>s. replaceOn (''on'' @ s) = s)
           \<and> (\<forall>s. take 2 s \<noteq> ''on'' \<longrightarrow> replaceOn s = s)"
proof -
  let ?c = "finishCollection X (applyPatches (HTML5_EVENTS X) n)"
  have ret: "getBuiltInHtmlCollection X = Inr ?c"
    using assms(1) by (rule getBuiltIn_Inr)
  have "markBuiltIn (bareEvent g) \<in> set (HtmlDataCollection.events ?c)"
    using assms(2) by (simp add: finishCollection_parts applyPatches_parts)
  moreover have "name (markBuiltIn (bareEvent g)) = replaceOn (IAttributeData.name g)"
    "HtmlMember.builtIn (markBuiltIn (bareEvent g)) = Some True"
    by (simp_all add: markBuiltIn_def bareEvent_def)
  ultimately have "\<exists>e \<in> set (HtmlDataCollection.events ?c).
      name e = replaceOn (IAttributeData.name g) \<and> HtmlMember.builtIn e = Some True"
    by blast
  with ret show ?thesis
    using replaceOn_on replaceOn_other by blast
qed

text \<open>The baseline entry \<open>onclick\<close> of \<open>demoImports\<close> gives the global event \<open>click\<close>.\<close>

theorem bare_event_registered_witness:
  "\<exists>c. getBuiltInHtmlCollection demoImports = Inr c
       \<and> (\<exists>e \<in> set (HtmlDataCollection.events c).
             name e = ''click'' \<and> HtmlMember.builtIn e = Some True)"
proof -
  have g: "demoEntry ''onclick'' \<in> set (HTML5_EVENTS demoImports)"
    by (simp add: demoImports_def)
  have r: "replaceOn (IAttributeData.name (demoEntry ''onclick'')) = ''click''"
    by (simp add: replaceOn_def demoEntry_def)
  from bare_event_registered [OF demo_parse_baseline g, unfolded r] show ?thesis
    by blast
qed

text \<open>
  C8. When the normalizer accepts the baseline, \<open>getBuiltInHtmlCollection\<close> returns a
  collection that keeps everything the normalizer produced: its tag names are the
  normalizer's tag names, in order, followed by \<open>svg\<close> and \<open>slot\<close>; its global attribute
  names are the normalizer's followed by \<open>slot\<close>; its global event names are the
  normalizer's followed by the bare names of \<open>HTML5_EVENTS\<close>. So every tag, global
  attribute and global event of the normalizer's output is still there, by name.
\<close>

theorem normalized_entities_kept:
  assumes "parseHtmlData X (baseline X) = Inr n"
  shows "\<exists>c. getBuiltInHtmlCollection X = Inr c
           \<and> map tagName (tags c) = map tagName (tags n) @ [''svg'', ''slot'']
           \<and> map name (attrs c) = map name (attrs n) @ [''slot'']
           \<and> map name (HtmlDataCollection.events c)
             = map name (HtmlDataCollection.events n)
               @ map (\<lambda>g. replaceOn (IAttributeData.name g)) (HTML5_EVENTS X)
           \<and> (\<forall>t \<in> set (tags n). \<exists>t' \<in> set (tags c). tagName t' = tagName t)
           \<and> (\<forall>a \<in> set (attrs n). \<exists>a' \<in> set (attrs c). name a' = name a)
           \<and> (\<forall>e \<in> set (HtmlDataCollection.events n).
                 \<exists>e' \<in> set (HtmlDataCollection.events c). name e' = name e)"
proof -
  let ?c = "finishCollection X (applyPatches (HTML5_EVENTS X) n)"
  have ret: "getBuiltInHtmlCollection X = Inr ?c"
    using assms by (rule getBuiltIn_Inr)
  note names = builtIn_names [of X "HTML5_EVENTS X" n]
  have t: "\<exists>t' \<in> set (tags ?c). tagName t' = tagName t" if "t \<in> set (tags n)" for t
  proof -
    have "tagName t \<in> set (map tagName (tags ?c))"
      using that unfolding names(1) by simp
    then show ?thesis by auto
  qed
  have a: "\<exists>a' \<in> set (attrs ?c). name a' = name a" if "a \<in> set (attrs n)" for a
  proof -
    have "name a \<in> set (map name (attrs ?c))"
      using that unfolding names(2) by simp
    then show ?thesis by auto
  qed
  have e: "\<exists>e' \<in> set (HtmlDataCollection.events ?c). name e' = name e"
    if "e \<in> set (HtmlDataCollection.events n)" for e
  proof -
    have "name e \<in> set (map name (HtmlDataCollection.events ?c))"
      using that unfolding names(3) by simp
    then show ?thesis by auto
  qed
  show ?thesis
    using ret names t a e by blast
qed

theorem normalized_entities_kept_witness:
  "\<exists>c. getBuiltInHtmlCollection demoImports = Inr c
       \<and> map tagName (tags c) = [''div'', ''video'', ''svg'', ''slot'']
       \<and> map name (attrs c) = [''hidden'', ''onclick'', ''slot'']
       \<and> map name (HtmlDataCollection.events c) = [''click'']"
proof -
  obtain c where c: "getBuiltInHtmlCollection demoImports = Inr c"
    and t: "map tagName (tags c) = map tagName (tags demoNormalized) @ [''svg'', ''slot'']"
    and a: "map name (attrs c) = map name (attrs demoNormalized) @ [''slot'']"
    and e: "map name (HtmlDataCollection.events c)
            = map name (HtmlDataCollection.events demoNormalized)
              @ map (\<lambda>g. replaceOn (IAttributeData.name g)) (HTML5_EVENTS demoImports)"
    using normalized_entities_kept [OF demo_parse_baseline] by blast
  have "map tagName (tags c) = [''div'', ''video'', ''svg'', ''slot'']"
    using t by (simp add: demoNormalized_def tagOfName_def)
  moreover have "map name (attrs c) = [''hidden'', ''onclick'', ''slot'']"
    using a by (simp add: demoNormalized_def demoAttr_def demoEntry_def)
  moreover have "map name (HtmlDataCollection.events c) = [''click'']"
    using e by (simp add: demoNormalized_def demoImports_def replaceOn_def demoEntry_def)
  ultimately show ?thesis using c by (intro exI [of _ c]) simp
qed

text \<open>
  C1, as the code has it. When the normalizer accepts the baseline, whatever flags it
  set: every tag of the returned collection, every attribute of every tag, every global
  attribute and every global event has \<open>builtIn\<close> true. The events of a tag are not
  touched: each tag has the events the normalizer gave it, with the flags it gave them,
  the \<open>svg\<close> tag has none, and the \<open>slot\<close> tag has its \<open>slotchange\<close> event, which is
  built with \<open>builtIn\<close> true.
\<close>

theorem builtIn_marked:
  assumes "parseHtmlData X (baseline X) = Inr n"
  shows "\<exists>c. getBuiltInHtmlCollection X = Inr c
           \<and> (\<forall>t \<in> set (tags c). HtmlTag.builtIn t = Some True
                 \<and> (\<forall>a \<in> set (attributes t). HtmlMember.builtIn a = Some True))
           \<and> (\<forall>a \<in> set (attrs c). HtmlMember.builtIn a = Some True)
           \<and> (\<forall>e \<in> set (HtmlDataCollection.events c). HtmlMember.builtIn e = Some True)
           \<and> map HtmlTag.events (tags c) = map HtmlTag.events (tags n) @ [[], HtmlTag.events slotTag]
           \<and> map HtmlMember.builtIn (HtmlTag.events slotTag) = [Some True]"
proof -
  let ?c = "finishCollection X (applyPatches (HTML5_EVENTS X) n)"
  have "getBuiltInHtmlCollection X = Inr ?c"
    using assms by (rule getBuiltIn_Inr)
  moreover have "\<forall>t \<in> set (tags ?c). HtmlTag.builtIn t = Some True
                  \<and> (\<forall>a \<in> set (attributes t). HtmlMember.builtIn a = Some True)"
    using builtIn_flags(1,2) by blast
  moreover have "\<forall>a \<in> set (attrs ?c). HtmlMember.builtIn a = Some True"
    using builtIn_flags(3) by blast
  moreover have "\<forall>e \<in> set (HtmlDataCollection.events ?c). HtmlMember.builtIn e = Some True"
    using builtIn_flags(4) by blast
  ultimately show ?thesis
    using builtIn_tag_events [of X "HTML5_EVENTS X" n] slotTag_events_builtIn
    by (intro exI [of _ ?c]) simp
qed

text \<open>
  With the normalizer of \<open>eventImports\<close>: the three tags are marked, and the \<open>toggle\<close>
  event of the \<open>details\<close> tag keeps its unset flag.
\<close>

theorem builtIn_marked_witness:
  "\<exists>c. getBuiltInHtmlCollection eventImports = Inr c
       \<and> map HtmlTag.builtIn (tags c) = [Some True, Some True, Some True]
       \<and> map (\<lambda>t. map HtmlMember.builtIn (HtmlTag.events t)) (tags c) = [[None], [], [Some True]]"
proof -
  obtain c where c: "getBuiltInHtmlCollection eventImports = Inr c"
    and t: "\<forall>t \<in> set (tags c). HtmlTag.builtIn t = Some True
              \<and> (\<forall>a \<in> set (attributes t). HtmlMember.builtIn a = Some True)"
    and e: "map HtmlTag.events (tags c)
            = map HtmlTag.events (tags eventNormalized) @ [[], HtmlTag.events slotTag]"
    using builtIn_marked [OF event_parse_baseline] by (elim exE conjE)
  have ev: "map HtmlTag.events (tags c) = [[toggleEvent], [], HtmlTag.events slotTag]"
    using e by (simp add: eventNormalized_def tagOfName_def)
  then have "length (tags c) = 3"
    using length_map [of HtmlTag.events "tags c"] by simp
  moreover have "map HtmlTag.builtIn (tags c) = map (\<lambda>t. Some True) (tags c)"
    using t by (intro map_cong) simp_all
  ultimately have b: "map HtmlTag.builtIn (tags c) = [Some True, Some True, Some True]"
    by (simp add: map_replicate_const numeral_3_eq_3)
  have "map (\<lambda>t. map HtmlMember.builtIn (HtmlTag.events t)) (tags c)
        = map (map HtmlMember.builtIn) (map HtmlTag.events (tags c))"
    by simp
  also have "\<dots> = [[None], [], [Some True]]"
    unfolding ev by (simp add: toggleEvent_def slotTag_events_builtIn)
  finally show ?thesis
    using c b by (intro exI [of _ c]) simp
qed

text \<open>
  C1 as stated fails for the events of a tag. With the normalizer of \<open>eventImports\<close>,
  which puts the event \<open>toggle\<close> with no \<open>builtIn\<close> flag on the tag \<open>details\<close>, the
  returned collection still has that event with the flag unset.
\<close>

theorem tag_event_not_marked:
  "(case getBuiltInHtmlCollection eventImports of
      Inl e \<Rightarrow> []
    | Inr c \<Rightarrow> map (\<lambda>t. (tagName t, map (\<lambda>e. (name e, HtmlMember.builtIn e)) (HtmlTag.events t)))
               (tags c))
   = [(''details'', [(''toggle'', None)]), (''svg'', []), (''slot'', [(''slotchange'', Some True)])]
   \<and> \<not> (\<forall>c. getBuiltInHtmlCollection eventImports = Inr c \<longrightarrow>
            (\<forall>t \<in> set (tags c). \<forall>e \<in> set (HtmlTag.events t). HtmlMember.builtIn e = Some True))"
proof -
  let ?c = "finishCollection eventImports (applyPatches (HTML5_EVENTS eventImports) eventNormalized)"
  have ret: "getBuiltInHtmlCollection eventImports = Inr ?c"
    using event_parse_baseline by (rule getBuiltIn_Inr)
  have val: "map (\<lambda>t. (tagName t, map (\<lambda>e. (name e, HtmlMember.builtIn e)) (HtmlTag.events t)))
               (tags ?c)
        = [(''details'', [(''toggle'', None)]), (''svg'', []),
           (''slot'', [(''slotchange'', Some True)])]"
    by (simp add: finishCollection_def applyPatches_def Let_def finishTag_def tagOfName_def
        svgTag_def slotTag_def toggleEvent_def eventNormalized_def)
  have "\<exists>t \<in> set (tags ?c). \<exists>e \<in> set (HtmlTag.events t). HtmlMember.builtIn e \<noteq> Some True"
    by (simp add: finishCollection_def applyPatches_def Let_def finishTag_def tagOfName_def
        svgTag_def slotTag_def toggleEvent_def eventNormalized_def)
  with ret have "\<not> (\<forall>c. getBuiltInHtmlCollection eventImports = Inr c \<longrightarrow>
            (\<forall>t \<in> set (tags c). \<forall>e \<in> set (HtmlTag.events t). HtmlMember.builtIn e = Some True))"
    by blast
  with ret val show ?thesis by simp
qed









section \<open>Memoization\<close>





end
